theory Spec2Isabelle
  imports
    Complex_Main
    "HOL-Library.Multiset"
    "HOL-Library.Char_ord"
    "HOL-Library.List_Lexorder"
    "HOL-Library.Product_Lexorder"
begin

section \<open>The submissions service of index.js\<close>

text \<open>
  The program is an Express application over one SQLite table. Its four routes are
  embedded as functions from a request and the database to a response, the database
  afterwards and the lines written to the console. The SQL statements the handlers
  build are data (\<open>stmt\<close>); the storage engine that runs them is a function on the table.
\<close>

subsection \<open>JavaScript values\<close>

text \<open>
  What \<open>express.json()\<close> and the query parser hand to a handler. A number is the real
  number its double stands for (NaN and the infinities are left out). \<open>JUndefined\<close> is
  what reading an absent property gives.
\<close>

datatype jsval =
    JUndefined
  | JNull
  | JBool bool
  | JNum real
  | JStr string
  | JArr "jsval list"
  | JObj "(string \<times> jsval) list"

type_synonym jsobject = "string \<rightharpoonup> jsval"

text \<open>\<open>const { k } = obj\<close>: the property, or \<open>undefined\<close> when the object has none.\<close>

definition field :: "jsobject \<Rightarrow> string \<Rightarrow> jsval" where
  "field obj k = (case obj k of None \<Rightarrow> JUndefined | Some v \<Rightarrow> v)"

text \<open>The condition of \<open>v ? a : b\<close>.\<close>

fun truthy :: "jsval \<Rightarrow> bool" where
  "truthy JUndefined = False"
| "truthy JNull = False"
| "truthy (JBool b) = b"
| "truthy (JNum n) = (n \<noteq> 0)"
| "truthy (JStr s) = (s \<noteq> [])"
| "truthy (JArr xs) = True"
| "truthy (JObj kvs) = True"

text \<open>Decimal rendering of an integer, as a template literal or \<open>String(n)\<close> prints it.\<close>

definition digit_char :: "nat \<Rightarrow> char" where
  "digit_char d = char_of (of_char CHR ''0'' + d)"

fun dec_nat :: "nat \<Rightarrow> string" where
  "dec_nat n = (if n < 10 then [digit_char n] else dec_nat (n div 10) @ [digit_char (n mod 10)])"

declare dec_nat.simps [simp del]

definition dec_int :: "int \<Rightarrow> string" where
  "dec_int i = (if i < 0 then CHR ''-'' # dec_nat (nat (- i)) else dec_nat (nat i))"

text \<open>
  An integer as a JavaScript number: the nearest double, ties to the even mantissa. Up to
  \<open>2^53\<close> every integer is its own double; from there on doubles are \<open>ulp\<close> apart.
\<close>

fun ulp :: "nat \<Rightarrow> nat" where
  "ulp n = (if n < 9007199254740992 then 1 else 2 * ulp (n div 2))"

declare ulp.simps [simp del]

definition js_number :: "int \<Rightarrow> int" where
  "js_number i =
     (let n = nat \<bar>i\<bar>; u = ulp n; q = n div u; r = n mod u;
          m = (if 2 * r < u then q else if u < 2 * r then q + 1
               else if even q then q else q + 1)
      in sgn i * int (m * u))"

subsection \<open>The storage engine: values, binding and column affinity\<close>

datatype sqlval = SNull | SInt int | SReal real | SText string

definition whole :: "real \<Rightarrow> bool" where
  "whole x \<longleftrightarrow> of_int \<lfloor>x\<rfloor> = x"

text \<open>
  How the sqlite3 driver binds a JavaScript parameter: \<open>undefined\<close> leaves the
  placeholder unbound, which SQLite reads as NULL; a boolean is bound as the integer 1 or
  0; a number as an integer when it is a whole number of 32 bits and as a float otherwise;
  an array or any other object as the text \<open>[object Object]\<close>.
\<close>

fun bind :: "jsval \<Rightarrow> sqlval" where
  "bind JUndefined = SNull"
| "bind JNull = SNull"
| "bind (JBool b) = SInt (if b then 1 else 0)"
| "bind (JNum x) =
     (if whole x \<and> - 2147483648 \<le> x \<and> x \<le> 2147483647 then SInt \<lfloor>x\<rfloor> else SReal x)"
| "bind (JStr s) = SText s"
| "bind (JArr xs) = SText ''[object Object]''"
| "bind (JObj kvs) = SText ''[object Object]''"

text \<open>
  SQLite converts a value to the affinity of the column that receives it, and a text
  operand to a number when it is compared with an INTEGER column. Under numeric affinity
  a float with a whole value of 64 bits becomes an integer, and a text that is a
  well-formed number becomes that number. Which texts are well-formed numbers, and which
  value they have, is the engine's business: it is the parameter \<open>lit\<close> of everything
  below (\<open>lit s = Some x\<close> when the engine reads the text \<open>s\<close> as the number \<open>x\<close>), and
  every theorem holds for every such reading. Under text affinity a number becomes its
  text: an integer its decimal digits, a float what the engine prints for it, the
  parameter \<open>rt\<close>.
\<close>

type_synonym literal = "string \<Rightarrow> real option"

definition number_of_float :: "real \<Rightarrow> sqlval" where
  "number_of_float x =
     (if whole x \<and> - 9223372036854775808 < x \<and> x < 9223372036854775808
      then SInt \<lfloor>x\<rfloor> else SReal x)"

definition number_of_text :: "real \<Rightarrow> sqlval" where
  "number_of_text x =
     (if whole x \<and> - 9223372036854775808 \<le> x \<and> x < 9223372036854775808
      then SInt \<lfloor>x\<rfloor> else SReal x)"

fun numeric_affinity :: "literal \<Rightarrow> sqlval \<Rightarrow> sqlval" where
  "numeric_affinity lit (SText s) = (case lit s of Some x \<Rightarrow> number_of_text x | None \<Rightarrow> SText s)"
| "numeric_affinity lit (SReal x) = number_of_float x"
| "numeric_affinity lit v = v"

fun text_affinity :: "(real \<Rightarrow> string) \<Rightarrow> sqlval \<Rightarrow> sqlval" where
  "text_affinity rt (SInt n) = SText (dec_int n)"
| "text_affinity rt (SReal x) = SText (rt x)"
| "text_affinity rt v = v"

text \<open>
  The order of \<open>ORDER BY\<close>: NULL first, then numbers by value, then text bytewise. A
  column of numeric affinity holds no float with a whole value, so an integer and a float
  never tie there; the key puts the integer first.
\<close>

fun sql_rank :: "sqlval \<Rightarrow> nat \<times> real \<times> nat \<times> string" where
  "sql_rank SNull = (0, 0, 0, [])"
| "sql_rank (SInt n) = (1, of_int n, 0, [])"
| "sql_rank (SReal x) = (1, x, 1, [])"
| "sql_rank (SText s) = (2, 0, 0, s)"

subsection \<open>The table\<close>

text \<open>One row of \<open>submissions\<close>, column by column as \<open>CREATE TABLE\<close> declares them.\<close>

record submission =
  id_col :: int
  shopName :: sqlval
  phoneNumber :: sqlval
  dropOffType :: sqlval
  vehicleYear :: sqlval
  vehicleMake :: sqlval
  vehicleModel :: sqlval
  vehicleIssueDescription :: sqlval
  moduleCount :: sqlval
  singleStageCount :: sqlval
  dualStageCount :: sqlval
  threeStageCount :: sqlval
  buckleCount :: sqlval
  isDone :: sqlval
  isPrinted :: sqlval
  submittedAt :: sqlval
  doneAt :: sqlval
  printedAt :: sqlval

datatype column = IsDone | DoneAt | IsPrinted | PrintedAt

text \<open>
  The three statements of the program. \<open>Insert\<close> carries the twelve parameters in the
  order of its column list, \<open>Select\<close> whether \<open>WHERE isDone = 0\<close> was appended, \<open>Update\<close>
  the \<open>SET\<close> list with its parameters and the parameter of \<open>WHERE id = ?\<close>.
\<close>

datatype stmt =
    Insert "jsval list"
  | Select bool
  | Update "(column \<times> jsval) list" jsval

text \<open>
  The database: the rows in rowid order, the counter AUTOINCREMENT keeps in
  \<open>sqlite_sequence\<close>, and the statements the engine has been handed so far.
\<close>

record database =
  rows :: "submission list"
  seq :: int
  journal :: "stmt list"

text \<open>
  What the program does not decide: a failure of the engine on this statement (with its
  \<open>err.message\<close>), the engine's \<open>CURRENT_TIMESTAMP\<close>, the two readings of
  \<open>new Date().toISOString()\<close> in the status handler, and the text the engine prints for
  a float.
\<close>

record env =
  fault :: "string option"
  current_timestamp :: string
  now_done :: string
  now_printed :: string
  real_text :: "real \<Rightarrow> string"

definition param :: "jsval list \<Rightarrow> nat \<Rightarrow> jsval" where
  "param ps k = (if k < length ps then ps ! k else JUndefined)"

definition max_id :: "submission list \<Rightarrow> int" where
  "max_id rs = foldr (\<lambda>r m. max (id_col r) m) rs 0"

definition max_rowid :: int where
  "max_rowid = 9223372036854775807"

text \<open>The row an \<open>INSERT\<close> with these parameters creates, the other columns at their defaults.\<close>

definition inserted_row ::
  "literal \<Rightarrow> (real \<Rightarrow> string) \<Rightarrow> string \<Rightarrow> int \<Rightarrow> jsval list \<Rightarrow> submission" where
  "inserted_row lit rt ts i ps =
     \<lparr> id_col = i,
       shopName = text_affinity rt (bind (param ps 0)),
       phoneNumber = text_affinity rt (bind (param ps 1)),
       dropOffType = text_affinity rt (bind (param ps 2)),
       vehicleYear = numeric_affinity lit (bind (param ps 3)),
       vehicleMake = text_affinity rt (bind (param ps 4)),
       vehicleModel = text_affinity rt (bind (param ps 5)),
       vehicleIssueDescription = text_affinity rt (bind (param ps 6)),
       moduleCount = numeric_affinity lit (bind (param ps 7)),
       singleStageCount = numeric_affinity lit (bind (param ps 8)),
       dualStageCount = numeric_affinity lit (bind (param ps 9)),
       threeStageCount = numeric_affinity lit (bind (param ps 10)),
       buckleCount = numeric_affinity lit (bind (param ps 11)),
       isDone = SInt 0,
       isPrinted = SInt 0,
       submittedAt = numeric_affinity lit (SText ts),
       doneAt = SNull,
       printedAt = SNull \<rparr>"

text \<open>
  \<open>db.run\<close> of the \<open>INSERT\<close>: the error, or \<open>this.lastID\<close>. AUTOINCREMENT gives the row
  an id one above the largest the table has ever held, and fails once that is exhausted.
  The driver hands the id of the new row to the callback as a JavaScript number.
\<close>

definition next_id :: "database \<Rightarrow> int" where
  "next_id db = max (seq db) (max_id (rows db)) + 1"

definition db_run_insert ::
  "literal \<Rightarrow> env \<Rightarrow> jsval list \<Rightarrow> database \<Rightarrow> (string + int) \<times> database" where
  "db_run_insert lit e ps db =
     (let db1 = db\<lparr>journal := journal db @ [Insert ps]\<rparr>
      in case fault e of
           Some msg \<Rightarrow> (Inl msg, db1)
         | None \<Rightarrow>
             if 12 < length ps then (Inl ''SQLITE_RANGE: column index out of range'', db1)
             else if max_rowid < next_id db
             then (Inl ''SQLITE_FULL: database or disk is full'', db1)
             else (Inr (js_number (next_id db)),
                   db1\<lparr>rows := rows db @
                               [inserted_row lit (real_text e) (current_timestamp e)
                                  (next_id db) ps],
                       seq := next_id db\<rparr>))"

text \<open>
  \<open>ORDER BY col DESC\<close>: descending, rows that tie on the column in the order of the table.
\<close>

definition order_by_desc :: "('a \<Rightarrow> sqlval) \<Rightarrow> 'a list \<Rightarrow> 'a list" where
  "order_by_desc col rs = rev (sort_key (\<lambda>r. sql_rank (col r)) (rev rs))"

text \<open>
  \<open>db.all\<close> of the \<open>SELECT\<close>: the error, or the rows. As the column holds no float with
  a whole value, \<open>WHERE isDone = 0\<close> selects the rows that hold the integer 0.
\<close>

definition db_all ::
  "env \<Rightarrow> bool \<Rightarrow> database \<Rightarrow> (string + submission list) \<times> database" where
  "db_all e only_open db =
     (let db1 = db\<lparr>journal := journal db @ [Select only_open]\<rparr>
      in case fault e of
           Some msg \<Rightarrow> (Inl msg, db1)
         | None \<Rightarrow>
             (Inr (order_by_desc submittedAt
                     (if only_open then filter (\<lambda>r. isDone r = SInt 0) (rows db) else rows db)),
              db1))"

text \<open>One assignment of a \<open>SET\<close> list; the four columns have NUMERIC affinity.\<close>

fun set_col :: "literal \<Rightarrow> submission \<Rightarrow> column \<times> jsval \<Rightarrow> submission" where
  "set_col lit r (IsDone, v) = r\<lparr>isDone := numeric_affinity lit (bind v)\<rparr>"
| "set_col lit r (DoneAt, v) = r\<lparr>doneAt := numeric_affinity lit (bind v)\<rparr>"
| "set_col lit r (IsPrinted, v) = r\<lparr>isPrinted := numeric_affinity lit (bind v)\<rparr>"
| "set_col lit r (PrintedAt, v) = r\<lparr>printedAt := numeric_affinity lit (bind v)\<rparr>"

text \<open>\<open>WHERE id = ?\<close>: the parameter, read as a number, equals the row's key.\<close>

definition id_matches :: "literal \<Rightarrow> jsval \<Rightarrow> int \<Rightarrow> bool" where
  "id_matches lit p k = (numeric_affinity lit (bind p) = SInt k)"

text \<open>
  An assignment that puts NULL in a column declared \<open>NOT NULL\<close>, and the engine's message
  for the first such column of the table in a \<open>SET\<close> list.
\<close>

fun violates_not_null :: "column \<times> jsval \<Rightarrow> bool" where
  "violates_not_null (IsDone, v) = (bind v = SNull)"
| "violates_not_null (IsPrinted, v) = (bind v = SNull)"
| "violates_not_null (c, v) = False"

definition not_null_message :: "(column \<times> jsval) list \<Rightarrow> string" where
  "not_null_message assigns =
     ''SQLITE_CONSTRAINT: NOT NULL constraint failed: submissions.'' @
     (if list_ex (\<lambda>(c, v). c = IsDone \<and> bind v = SNull) assigns
      then ''isDone'' else ''isPrinted'')"

text \<open>
  \<open>db.run\<close> of the \<open>UPDATE\<close>: the error, or \<open>this.changes\<close>, the number of rows the
  \<open>WHERE\<close> clause selected. A constraint failure on a selected row aborts the statement
  and leaves the table as it was.
\<close>

definition db_run_update ::
  "literal \<Rightarrow> env \<Rightarrow> (column \<times> jsval) list \<Rightarrow> jsval \<Rightarrow> database \<Rightarrow> (string + nat) \<times> database" where
  "db_run_update lit e assigns p db =
     (let db1 = db\<lparr>journal := journal db @ [Update assigns p]\<rparr>;
          hit = (\<lambda>r. id_matches lit p (id_col r))
      in case fault e of
           Some msg \<Rightarrow> (Inl msg, db1)
         | None \<Rightarrow>
             if list_ex hit (rows db) \<and> list_ex violates_not_null assigns
             then (Inl (not_null_message assigns), db1)
             else (Inr (length (filter hit (rows db))),
                   db1\<lparr>rows := map (\<lambda>r. if hit r then foldl (set_col lit) r assigns else r)
                                   (rows db)\<rparr>))"

subsection \<open>Requests and responses\<close>

datatype route =
    POST_api_submit
  | GET_api_submissions
  | POST_api_submissions_status string
  | GET_root

record request =
  route :: route
  credentials :: "(string \<times> string) option"
  query :: jsobject
  body :: jsobject

datatype payload =
    Json_error string
  | Json_message string
  | Json_created string int
  | Json_rows "submission list"
  | Text string
  | Html_page

record response =
  status :: nat
  www_authenticate :: "string option"
  payload :: payload

type_synonym outcome = "response \<times> database \<times> string list"

definition reply :: "nat \<Rightarrow> payload \<Rightarrow> response" where
  "reply code p = \<lparr> status = code, www_authenticate = None, payload = p \<rparr>"

subsection \<open>Basic authentication\<close>

definition users :: "(string \<times> string) list" where
  "users = [(''admin'', ''password'')]"

definition unauthorizedResponse :: "request \<Rightarrow> string" where
  "unauthorizedResponse req =
     (case credentials req of
        Some (user, password) \<Rightarrow> ''Credentials '' @ user @ '':'' @ password @ '' rejected''
      | None \<Rightarrow> ''No credentials provided'')"

text \<open>
  \<open>basicAuth({ users, challenge: true, unauthorizedResponse })\<close>: \<open>None\<close> lets the request
  through to the route; otherwise the 401 with its \<open>WWW-Authenticate\<close> header.
\<close>

definition authorized :: "string \<Rightarrow> string \<Rightarrow> bool" where
  "authorized user password = list_ex (\<lambda>(u, p). user = u \<and> password = p) users"

definition authenticator :: "request \<Rightarrow> response option" where
  "authenticator req =
     (let unauthorized =
            \<lparr> status = 401, www_authenticate = Some ''Basic'',
              payload = Text (unauthorizedResponse req) \<rparr>
      in case credentials req of
           None \<Rightarrow> Some unauthorized
         | Some (user, password) \<Rightarrow>
             if authorized user password then None else Some unauthorized)"

subsection \<open>The route handlers\<close>

text \<open>The \<open>params\<close> array of the submit handler, in the order of the column list.\<close>

definition submit_params :: "jsobject \<Rightarrow> jsval list" where
  "submit_params b =
     [field b ''customerName'', field b ''phoneNumber'', field b ''dropOffType'',
      field b ''vehicleYear'', field b ''vehicleMake'', field b ''vehicleModel'',
      field b ''vehicleIssueDescription'', field b ''moduleCount'',
      field b ''singleStageCount'', field b ''dualStageCount'',
      field b ''threeStageCount'', field b ''buckleCount'']"

definition submit_handler :: "literal \<Rightarrow> env \<Rightarrow> request \<Rightarrow> database \<Rightarrow> outcome" where
  "submit_handler lit e req db =
     (case db_run_insert lit e (submit_params (body req)) db of
        (Inl msg, db') \<Rightarrow>
          (reply 500 (Json_error ''Failed to submit form.''), db',
           [''Error inserting data '' @ msg])
      | (Inr lastID, db') \<Rightarrow>
          (reply 201 (Json_created ''Form submitted successfully!'' lastID), db',
           [''A new submission has been added with ID: '' @ dec_int lastID]))"

definition list_handler :: "env \<Rightarrow> request \<Rightarrow> database \<Rightarrow> outcome" where
  "list_handler e req db =
     (let showAll = field (query req) ''showAll''
      in case db_all e (showAll \<noteq> JStr ''true'') db of
           (Inl msg, db') \<Rightarrow>
             (reply 500 (Json_error ''Could not retrieve submissions.''), db',
              [''Error fetching submissions '' @ msg])
         | (Inr rs, db') \<Rightarrow> (reply 200 (Json_rows rs), db', []))"

text \<open>The \<open>SET\<close> list the status handler accumulates, each column with its parameter.\<close>

definition status_updates :: "env \<Rightarrow> jsobject \<Rightarrow> (column \<times> jsval) list" where
  "status_updates e b =
     (let isDone = field b ''isDone''; isPrinted = field b ''isPrinted''
      in (if isDone \<noteq> JUndefined
          then [(IsDone, isDone), (DoneAt, if truthy isDone then JStr (now_done e) else JNull)]
          else []) @
         (if isPrinted \<noteq> JUndefined
          then [(IsPrinted, isPrinted),
                (PrintedAt, if truthy isPrinted then JStr (now_printed e) else JNull)]
          else []))"

definition status_handler ::
  "literal \<Rightarrow> env \<Rightarrow> string \<Rightarrow> request \<Rightarrow> database \<Rightarrow> outcome" where
  "status_handler lit e ident req db =
     (let updates = status_updates e (body req)
      in if updates = []
         then (reply 400 (Json_error ''No status fields provided to update.''), db, [])
         else case db_run_update lit e updates (JStr ident) db of
                (Inl msg, db') \<Rightarrow>
                  (reply 500 (Json_error ''Failed to update status.''), db',
                   [''Error updating status for ID '' @ ident @ '' '' @ msg])
              | (Inr changes, db') \<Rightarrow>
                  if changes = 0
                  then (reply 404 (Json_error ''Submission not found.''), db', [])
                  else (reply 200 (Json_message ''Status updated successfully.''), db',
                        [''Status for submission ID '' @ ident @ '' updated.'']))"

definition dashboard_handler :: "request \<Rightarrow> database \<Rightarrow> outcome" where
  "dashboard_handler req db = (reply 200 Html_page, db, [])"

text \<open>A route registered with \<open>authenticator\<close> runs its handler only when that lets it.\<close>

definition guarded :: "(request \<Rightarrow> database \<Rightarrow> outcome) \<Rightarrow> request \<Rightarrow> database \<Rightarrow> outcome" where
  "guarded handler req db =
     (case authenticator req of
        Some refusal \<Rightarrow> (refusal, db, [])
      | None \<Rightarrow> handler req db)"

text \<open>
  The four routes \<open>index.js\<close> registers, for a request whose body \<open>express.json()\<close> has
  parsed into an object. What Express answers by itself, before or instead of a route
  (a body that does not parse, a path or method no route matches), is not part of \<open>app\<close>.
\<close>

definition app :: "literal \<Rightarrow> env \<Rightarrow> request \<Rightarrow> database \<Rightarrow> outcome" where
  "app lit e req db =
     (case route req of
        POST_api_submit \<Rightarrow> submit_handler lit e req db
      | GET_api_submissions \<Rightarrow> guarded (list_handler e) req db
      | POST_api_submissions_status ident \<Rightarrow> guarded (status_handler lit e ident) req db
      | GET_root \<Rightarrow> guarded dashboard_handler req db)"

text \<open>Requests served one after the other, each with its own environment.\<close>

fun serve :: "literal \<Rightarrow> database \<Rightarrow> (env \<times> request) list \<Rightarrow> response list \<times> database" where
  "serve lit db [] = ([], db)"
| "serve lit db ((e, req) # rest) =
     (case app lit e req db of
        (resp, db', console) \<Rightarrow>
          (case serve lit db' rest of (resps, db'') \<Rightarrow> (resp # resps, db'')))"

subsection \<open>Notions used in the statements\<close>

text \<open>
  The supplied user name and password are a pair of the configured mapping from user
  names to passwords.
\<close>

definition credentials_match :: "request \<Rightarrow> bool" where
  "credentials_match req =
     (case credentials req of None \<Rightarrow> False | Some (user, password) \<Rightarrow> map_of users user = Some password)"

text \<open>The 401 response that asks the client to send credentials again.\<close>

definition challenge :: "request \<Rightarrow> response" where
  "challenge req =
     \<lparr> status = 401, www_authenticate = Some ''Basic'', payload = Text (unauthorizedResponse req) \<rparr>"

text \<open>The row a status update leaves behind, column by column.\<close>

definition updated_row :: "literal \<Rightarrow> env \<Rightarrow> jsobject \<Rightarrow> submission \<Rightarrow> submission" where
  "updated_row lit e b r =
     r\<lparr> isDone := (if field b ''isDone'' = JUndefined then isDone r
                   else numeric_affinity lit (bind (field b ''isDone''))),
        doneAt := (if field b ''isDone'' = JUndefined then doneAt r
                   else if truthy (field b ''isDone'') then numeric_affinity lit (SText (now_done e))
                   else SNull),
        isPrinted := (if field b ''isPrinted'' = JUndefined then isPrinted r
                      else numeric_affinity lit (bind (field b ''isPrinted''))),
        printedAt := (if field b ''isPrinted'' = JUndefined then printedAt r
                      else if truthy (field b ''isPrinted'')
                           then numeric_affinity lit (SText (now_printed e))
                      else SNull) \<rparr>"

text \<open>The database once the engine has been handed the \<open>UPDATE\<close> of a status request.\<close>

definition issued :: "env \<Rightarrow> string \<Rightarrow> request \<Rightarrow> database \<Rightarrow> database" where
  "issued e ident req db =
     db\<lparr>journal := journal db @ [Update (status_updates e (body req)) (JStr ident)]\<rparr>"

text \<open>The error bodies the route handlers can send.\<close>

definition fixed_messages :: "payload set" where
  "fixed_messages =
     {Json_error ''Failed to submit form.'', Json_error ''Could not retrieve submissions.'',
      Json_error ''No status fields provided to update.'', Json_error ''Failed to update status.'',
      Json_error ''Submission not found.''}"

text \<open>The ids that successful creates returned, in the order of the responses.\<close>

definition created_id :: "response \<Rightarrow> int option" where
  "created_id resp = (case payload resp of Json_created message i \<Rightarrow> Some i | _ \<Rightarrow> None)"

definition created_ids :: "response list \<Rightarrow> int list" where
  "created_ids resps = List.map_filter created_id resps"

text \<open>
  A status field as the interface declares it: absent, or a boolean.
\<close>

fun optional_bool :: "jsval \<Rightarrow> bool" where
  "optional_bool JUndefined = True"
| "optional_bool (JBool b) = True"
| "optional_bool v = False"




subsection \<open>Example data\<close>

text \<open>
  A reading of unsigned decimal text as numbers, a printing of floats with whole values, an
  environment, a table of three rows and a request builder, for the concrete instances
  below.
\<close>

definition decimal_literal :: literal where
  "decimal_literal s =
     (if s \<noteq> [] \<and> list_all (\<lambda>c. CHR ''0'' \<le> c \<and> c \<le> CHR ''9'') s
      then Some (real (foldl (\<lambda>n c. 10 * n + (of_char c - 48)) 0 s))
      else None)"

definition whole_text :: "real \<Rightarrow> string" where
  "whole_text x = dec_int \<lfloor>x\<rfloor> @ ''.0''"

definition demo_env :: env where
  "demo_env = \<lparr> fault = None, current_timestamp = ''2024-05-01 10:00:00'',
                now_done = ''2024-05-02T08:30:00.000Z'', now_printed = ''2024-05-02T08:30:00.001Z'',
                real_text = whole_text \<rparr>"

definition demo_row :: "int \<Rightarrow> sqlval \<Rightarrow> string \<Rightarrow> submission" where
  "demo_row i done ts =
     (inserted_row decimal_literal whole_text ts i [JStr ''Acme Glass''])\<lparr>isDone := done\<rparr>"

definition demo_db :: database where
  "demo_db = \<lparr> rows = [demo_row 1 (SInt 0) ''2024-04-01 09:00:00'', demo_row 2 (SInt 1) ''2024-04-03 09:00:00'',
                       demo_row 3 (SInt 0) ''2024-04-02 09:00:00''],
               seq = 3, journal = [] \<rparr>"

definition demo_request :: "route \<Rightarrow> (string \<times> string) option \<Rightarrow> (string \<times> jsval) list \<Rightarrow> request" where
  "demo_request r c b = \<lparr> route = r, credentials = c, query = Map.empty, body = map_of b \<rparr>"

definition demo_requests :: "(env \<times> request) list" where
  "demo_requests =
     [(demo_env, demo_request POST_api_submit None [(''customerName'', JStr ''Acme Glass'')]),
      (demo_env, demo_request (POST_api_submissions_status ''4'') (Some (''admin'', ''password''))
                   [(''isDone'', JBool True)]),
      (demo_env\<lparr>fault := Some ''SQLITE_BUSY: database is locked''\<rparr>,
         demo_request POST_api_submit None [(''customerName'', JStr ''Busy'')]),
      (demo_env, demo_request POST_api_submit None [(''vehicleYear'', JNum 2020)])]"



section \<open>Properties\<close>

subsection \<open>Auxiliary facts\<close>

lemmas demo_defs =
  demo_env_def demo_db_def demo_row_def demo_request_def decimal_literal_def inserted_row_def
  param_def field_def id_matches_def number_of_text_def whole_def

lemma status_updates_Nil:
  "status_updates e b = [] \<longleftrightarrow> field b ''isDone'' = JUndefined \<and> field b ''isPrinted'' = JUndefined"
  by (simp add: status_updates_def Let_def)

lemma number_not_null [simp]:
  "number_of_text x \<noteq> SNull" "number_of_float x \<noteq> SNull"
  "SNull \<noteq> number_of_text x" "SNull \<noteq> number_of_float x"
  by (simp_all add: number_of_text_def number_of_float_def)

lemma bind_null_iff: "bind v = SNull \<longleftrightarrow> v = JUndefined \<or> v = JNull"
  by (cases v) simp_all

lemma numeric_affinity_null_iff [simp]: "numeric_affinity lit x = SNull \<longleftrightarrow> x = SNull"
  by (cases x) (simp_all add: number_of_float_def number_of_text_def split: option.split)

lemma ulp_small: "n < 9007199254740992 \<Longrightarrow> ulp n = 1"
  by (subst ulp.simps) simp

lemma ulp_large: "9007199254740992 \<le> n \<Longrightarrow> ulp n = 2 * ulp (n div 2)"
  by (subst ulp.simps) simp

lemma js_number_small: "\<bar>i\<bar> < 9007199254740992 \<Longrightarrow> js_number i = i"
  by (simp add: js_number_def ulp_small Let_def sgn_if)

lemma status_updates_violation:
  "list_ex violates_not_null (status_updates e b) \<longleftrightarrow>
     field b ''isDone'' = JNull \<or> field b ''isPrinted'' = JNull"
  by (auto simp add: status_updates_def Let_def bind_null_iff)

lemma foldl_status_updates:
  "foldl (set_col lit) r (status_updates e b) = updated_row lit e b r"
  by (simp add: status_updates_def updated_row_def Let_def)

lemma status_handler_cases:
  "status_handler lit e ident req db =
     (if field (body req) ''isDone'' = JUndefined \<and> field (body req) ''isPrinted'' = JUndefined
      then (reply 400 (Json_error ''No status fields provided to update.''), db, [])
      else case fault e of
        Some msg \<Rightarrow>
          (reply 500 (Json_error ''Failed to update status.''), issued e ident req db,
           [''Error updating status for ID '' @ ident @ '' '' @ msg])
      | None \<Rightarrow>
          if \<not> list_ex (\<lambda>r. id_matches lit (JStr ident) (id_col r)) (rows db)
          then (reply 404 (Json_error ''Submission not found.''), issued e ident req db, [])
          else if field (body req) ''isDone'' = JNull \<or> field (body req) ''isPrinted'' = JNull
          then (reply 500 (Json_error ''Failed to update status.''), issued e ident req db,
                [''Error updating status for ID '' @ ident @ '' '' @
                 not_null_message (status_updates e (body req))])
          else (reply 200 (Json_message ''Status updated successfully.''),
                (issued e ident req db)
                  \<lparr>rows := map (\<lambda>r. if id_matches lit (JStr ident) (id_col r)
                                     then updated_row lit e (body req) r else r) (rows db)\<rparr>,
                [''Status for submission ID '' @ ident @ '' updated.'']))"
proof -
  have no_hit: "map (\<lambda>r. if id_matches lit (JStr ident) (id_col r) then f r else r) (rows db) = rows db"
    if "\<not> list_ex (\<lambda>r. id_matches lit (JStr ident) (id_col r)) (rows db)" for f
    using that by (simp add: list_ex_iff map_idI)
  have len0: "filter (\<lambda>r. id_matches lit (JStr ident) (id_col r)) (rows db) = [] \<longleftrightarrow>
      \<not> list_ex (\<lambda>r. id_matches lit (JStr ident) (id_col r)) (rows db)"
    by (simp add: list_ex_iff filter_empty_conv)
  show ?thesis
    by (auto simp add: status_handler_def status_updates_Nil db_run_update_def Let_def issued_def
        status_updates_violation foldl_status_updates len0 no_hit split: option.split)
qed

lemma authenticator_iff: "authenticator req = (if credentials_match req then None else Some (challenge req))"
  by (simp add: authenticator_def credentials_match_def challenge_def authorized_def users_def
      split: option.split prod.split)

lemma guarded_cases:
  "guarded h req db = (if credentials_match req then h req db else (challenge req, db, []))"
  by (simp add: guarded_def authenticator_iff)

lemma submit_handler_cases:
  "submit_handler lit e req db =
     (case fault e of
        Some msg \<Rightarrow>
          (reply 500 (Json_error ''Failed to submit form.''),
           db\<lparr>journal := journal db @ [Insert (submit_params (body req))]\<rparr>,
           [''Error inserting data '' @ msg])
      | None \<Rightarrow>
          if max_rowid < next_id db
          then (reply 500 (Json_error ''Failed to submit form.''),
                db\<lparr>journal := journal db @ [Insert (submit_params (body req))]\<rparr>,
                [''Error inserting data '' @ ''SQLITE_FULL: database or disk is full''])
          else (reply 201 (Json_created ''Form submitted successfully!'' (js_number (next_id db))),
                db\<lparr>journal := journal db @ [Insert (submit_params (body req))],
                   rows := rows db @
                     [inserted_row lit (real_text e) (current_timestamp e) (next_id db)
                        (submit_params (body req))],
                   seq := next_id db\<rparr>,
                [''A new submission has been added with ID: '' @
                 dec_int (js_number (next_id db))]))"
  by (simp add: submit_handler_def db_run_insert_def Let_def submit_params_def split: option.split)

lemma list_handler_cases:
  "list_handler e req db =
     (case fault e of
        Some msg \<Rightarrow>
          (reply 500 (Json_error ''Could not retrieve submissions.''),
           db\<lparr>journal := journal db @ [Select (field (query req) ''showAll'' \<noteq> JStr ''true'')]\<rparr>,
           [''Error fetching submissions '' @ msg])
      | None \<Rightarrow>
          (reply 200
             (Json_rows
                (order_by_desc submittedAt
                   (if field (query req) ''showAll'' \<noteq> JStr ''true''
                    then filter (\<lambda>r. isDone r = SInt 0) (rows db) else rows db))),
           db\<lparr>journal := journal db @ [Select (field (query req) ''showAll'' \<noteq> JStr ''true'')]\<rparr>,
           []))"
  by (simp add: list_handler_def db_all_def Let_def split: option.split)

lemma fixed_messages_mem:
  "Json_error ''Failed to submit form.'' \<in> fixed_messages"
  "Json_error ''Could not retrieve submissions.'' \<in> fixed_messages"
  "Json_error ''No status fields provided to update.'' \<in> fixed_messages"
  "Json_error ''Failed to update status.'' \<in> fixed_messages"
  "Json_error ''Submission not found.'' \<in> fixed_messages"
  by (simp_all add: fixed_messages_def)

lemma submit_handler_response:
  "fst (submit_handler lit e req db) =
     (if fault e = None \<and> next_id db \<le> max_rowid
      then reply 201 (Json_created ''Form submitted successfully!'' (js_number (next_id db)))
      else reply 500 (Json_error ''Failed to submit form.''))"
  by (simp add: submit_handler_cases split: option.split)

lemma list_handler_response:
  "fst (list_handler e req db) =
     (case fault e of
        Some msg \<Rightarrow> reply 500 (Json_error ''Could not retrieve submissions.'')
      | None \<Rightarrow>
          reply 200
             (Json_rows
                (order_by_desc submittedAt
                   (if field (query req) ''showAll'' \<noteq> JStr ''true''
                    then filter (\<lambda>r. isDone r = SInt 0) (rows db) else rows db))))"
  by (simp add: list_handler_cases split: option.split)

lemma status_handler_response:
  "fst (status_handler lit e ident req db) =
     (if field (body req) ''isDone'' = JUndefined \<and> field (body req) ''isPrinted'' = JUndefined
      then reply 400 (Json_error ''No status fields provided to update.'')
      else if fault e \<noteq> None then reply 500 (Json_error ''Failed to update status.'')
      else if \<not> list_ex (\<lambda>r. id_matches lit (JStr ident) (id_col r)) (rows db)
      then reply 404 (Json_error ''Submission not found.'')
      else if field (body req) ''isDone'' = JNull \<or> field (body req) ''isPrinted'' = JNull
      then reply 500 (Json_error ''Failed to update status.'')
      else reply 200 (Json_message ''Status updated successfully.''))"
  by (simp add: status_handler_cases split: option.split)

lemma app_response:
  "fst (app lit e req db) =
     (if route req \<noteq> POST_api_submit \<and> \<not> credentials_match req then challenge req
      else case route req of
             POST_api_submit \<Rightarrow> fst (submit_handler lit e req db)
           | GET_api_submissions \<Rightarrow> fst (list_handler e req db)
           | POST_api_submissions_status ident \<Rightarrow> fst (status_handler lit e ident req db)
           | GET_root \<Rightarrow> reply 200 Html_page)"
  by (cases "route req") (simp_all add: app_def guarded_cases dashboard_handler_def)

lemma id_col_updated_row [simp]: "id_col (updated_row lit e b r) = id_col r"
  by (simp add: updated_row_def)

lemma ids_kept_by_status:
  "map id_col (map (\<lambda>r. if P r then updated_row lit e b r else r) rs) = map id_col rs"
  by (induction rs) simp_all

lemma status_handler_ids:
  "map id_col (rows (fst (snd (status_handler lit e ident req db)))) = map id_col (rows db)"
  by (simp add: status_handler_cases issued_def ids_kept_by_status del: map_map
      split: option.split)

lemma sql_rank_inj: "sql_rank x = sql_rank y \<longleftrightarrow> x = y"
  by (cases x; cases y) simp_all

lemma order_by_desc_strict:
  assumes "distinct (map col xs)"
  shows "sorted_wrt (\<lambda>a b. sql_rank (col b) < sql_rank (col a)) (order_by_desc col xs)"
proof -
  let ?k = "\<lambda>r. sql_rank (col r)"
  have "inj sql_rank"
    by (simp add: inj_on_def sql_rank_inj)
  then have "inj_on sql_rank (set (map col xs))"
    by (rule inj_on_subset) simp
  with assms have "distinct (map sql_rank (map col xs))"
    by (simp only: distinct_map)
  then have d: "distinct (map ?k (rev xs))" by (simp add: comp_def rev_map [symmetric])
  have "mset (map ?k (sort_key ?k (rev xs))) = mset (map ?k (rev xs))"
    by simp
  from mset_eq_imp_distinct_iff [OF this] d have "distinct (map ?k (sort_key ?k (rev xs)))"
    by blast
  moreover have "sorted (map ?k (sort_key ?k (rev xs)))" by (rule sorted_sort_key)
  ultimately have "sorted_wrt (<) (map ?k (sort_key ?k (rev xs)))"
    by (simp add: strict_sorted_iff)
  then have "sorted_wrt (\<lambda>a b. ?k a < ?k b) (sort_key ?k (rev xs))"
    by (simp add: sorted_wrt_map)
  then show ?thesis
    by (simp add: order_by_desc_def sorted_wrt_rev)
qed

lemma app_ids_grow:
  assumes "app lit e req db = (resp, db', console)"
  shows "\<exists>new. map id_col (rows db') = map id_col (rows db) @ new"
proof (cases "route req")
  case POST_api_submit
  with assms show ?thesis
    by (auto simp add: app_def submit_handler_cases split: option.splits if_splits)
next
  case GET_api_submissions
  with assms show ?thesis
    by (auto simp add: app_def guarded_cases list_handler_cases split: option.splits if_splits)
next
  case (POST_api_submissions_status ident)
  with assms status_handler_ids [of lit e ident req db] show ?thesis
    by (auto simp add: app_def guarded_cases split: if_splits)
next
  case GET_root
  with assms show ?thesis
    by (auto simp add: app_def guarded_cases dashboard_handler_def split: if_splits)
qed

lemma serve_ids_grow:
  "serve lit db qs = (resps, db') \<Longrightarrow> \<exists>new. map id_col (rows db') = map id_col (rows db) @ new"
proof (induction qs arbitrary: db resps db')
  case Nil
  then show ?case by simp
next
  case (Cons q qs)
  obtain e req where q: "q = (e, req)" by (cases q)
  obtain resp db1 console where step: "app lit e req db = (resp, db1, console)"
    by (cases "app lit e req db")
  obtain resps1 db2 where rest: "serve lit db1 qs = (resps1, db2)"
    by (cases "serve lit db1 qs")
  from Cons.prems q step rest have "db' = db2" by simp
  with Cons.IH [OF rest] app_ids_grow [OF step] show ?case by auto
qed

lemma max_id_ids: "max_id rs = foldr max (map id_col rs) 0"
  by (induction rs) (simp_all add: max_id_def)

lemma id_le_max_id: "k \<in> set (map id_col rs) \<Longrightarrow> k \<le> max_id rs"
  unfolding max_id_ids by (induction rs) auto

lemma max_id_snoc: "max_id (rs @ [r]) = max (max_id rs) (id_col r)"
  unfolding max_id_ids by (induction rs) auto

lemma next_id_cong:
  "map id_col (rows db') = map id_col (rows db) \<Longrightarrow> seq db' = seq db \<Longrightarrow> next_id db' = next_id db"
  by (simp add: next_id_def max_id_ids)

lemma created_id_reply [simp]:
  "created_id (reply c (Json_created m i)) = Some i"
  "created_id (reply c (Json_error m)) = None"
  "created_id (reply c (Json_message m)) = None"
  "created_id (reply c (Json_rows rs)) = None"
  "created_id (reply c Html_page) = None"
  "created_id (challenge req) = None"
  by (simp_all add: created_id_def reply_def challenge_def)

lemma status_handler_seq:
  "seq (fst (snd (status_handler lit e ident req db))) = seq db"
  by (simp add: status_handler_cases issued_def split: option.split)

lemma status_handler_not_created:
  "created_id (fst (status_handler lit e ident req db)) = None"
  by (simp add: status_handler_response)

lemma id_col_inserted_row [simp]: "id_col (inserted_row lit rt ts i ps) = i"
  by (simp add: inserted_row_def)

lemma next_id_after_insert:
  "next_id (db\<lparr>journal := j, rows := rows db @ [inserted_row lit rt ts (next_id db) ps],
              seq := next_id db\<rparr>) = next_id db + 1"
proof -
  have "max_id (rows db) \<le> next_id db" by (simp add: next_id_def)
  then show ?thesis
    by (simp add: next_id_def [of "_\<lparr>seq := _\<rparr>"] max_id_snoc)
qed

lemma submit_step_ids:
  assumes "submit_handler lit e req db = (resp, db', console)"
  shows "created_id resp = None \<and> map id_col (rows db') = map id_col (rows db) \<and>
           next_id db' = next_id db
         \<or> created_id resp = Some (js_number (next_id db)) \<and>
           map id_col (rows db') = map id_col (rows db) @ [next_id db] \<and>
           next_id db' = next_id db + 1"
proof (cases "fault e = None \<and> next_id db \<le> max_rowid")
  case True
  with assms have
    "resp = reply 201 (Json_created ''Form submitted successfully!'' (js_number (next_id db)))"
    "db' = db\<lparr>journal := journal db @ [Insert (submit_params (body req))],
              rows := rows db @
                [inserted_row lit (real_text e) (current_timestamp e) (next_id db)
                   (submit_params (body req))],
              seq := next_id db\<rparr>"
    by (auto simp add: submit_handler_cases)
  then show ?thesis
    by (simp add: next_id_after_insert)
next
  case False
  with assms have
    "resp = reply 500 (Json_error ''Failed to submit form.'')"
    "db' = db\<lparr>journal := journal db @ [Insert (submit_params (body req))]\<rparr>"
    by (auto simp add: submit_handler_cases split: option.splits)
  then show ?thesis
    by (simp add: next_id_def)
qed

lemma app_step_ids:
  assumes "app lit e req db = (resp, db', console)"
  shows "created_id resp = None \<and> map id_col (rows db') = map id_col (rows db) \<and>
           next_id db' = next_id db
         \<or> created_id resp = Some (js_number (next_id db)) \<and>
           map id_col (rows db') = map id_col (rows db) @ [next_id db] \<and>
           next_id db' = next_id db + 1"
proof (cases "route req")
  case POST_api_submit
  with assms have "submit_handler lit e req db = (resp, db', console)"
    by (simp add: app_def)
  then show ?thesis by (rule submit_step_ids)
next
  case GET_api_submissions
  with assms show ?thesis
    by (auto simp add: app_def guarded_cases list_handler_cases next_id_def
        split: option.splits if_splits)
next
  case (POST_api_submissions_status ident)
  show ?thesis
  proof (cases "credentials_match req")
    case True
    with assms POST_api_submissions_status
    have run: "status_handler lit e ident req db = (resp, db', console)"
      by (simp add: app_def guarded_cases)
    from status_handler_ids [of lit e ident req db] status_handler_seq [of lit e ident req db]
      status_handler_not_created [of lit e ident req db]
    have "created_id resp = None" "map id_col (rows db') = map id_col (rows db)" "seq db' = seq db"
      by (simp_all add: run)
    with next_id_cong [of db' db] show ?thesis by simp
  next
    case False
    with assms POST_api_submissions_status show ?thesis
      by (auto simp add: app_def guarded_cases)
  qed
next
  case GET_root
  with assms show ?thesis
    by (auto simp add: app_def guarded_cases dashboard_handler_def split: if_splits)
qed

lemma created_ids_Cons:
  "created_ids (resp # resps) =
     (case created_id resp of None \<Rightarrow> created_ids resps | Some i \<Rightarrow> i # created_ids resps)"
  by (simp add: created_ids_def List.map_filter_simps split: option.split)

text \<open>
  The ids the engine gave to the rows created over a run, against the numbers the
  responses carried.
\<close>

lemma serve_created:
  "serve lit db qs = (resps, db') \<Longrightarrow>
     \<exists>new. map id_col (rows db') = map id_col (rows db) @ new \<and>
           created_ids resps = map js_number new \<and>
           sorted_wrt (<) new \<and>
           (\<forall>i \<in> set new. next_id db \<le> i \<and> i < next_id db') \<and>
           next_id db \<le> next_id db'"
proof (induction qs arbitrary: db resps db')
  case Nil
  then show ?case by (auto simp add: created_ids_def List.map_filter_simps)
next
  case (Cons q qs)
  obtain e req where q: "q = (e, req)" by (cases q)
  obtain resp db1 console where step: "app lit e req db = (resp, db1, console)"
    by (cases "app lit e req db")
  obtain resps1 db2 where rest: "serve lit db1 qs = (resps1, db2)"
    by (cases "serve lit db1 qs")
  from Cons.prems q step rest have eq: "resps = resp # resps1" "db' = db2" by simp_all
  from Cons.IH [OF rest] obtain new1 where ih:
    "map id_col (rows db2) = map id_col (rows db1) @ new1"
    "created_ids resps1 = map js_number new1"
    "sorted_wrt (<) new1"
    "\<forall>i \<in> set new1. next_id db1 \<le> i \<and> i < next_id db2"
    "next_id db1 \<le> next_id db2"
    by blast
  from app_step_ids [OF step] show ?case
  proof
    assume "created_id resp = None \<and> map id_col (rows db1) = map id_col (rows db) \<and>
           next_id db1 = next_id db"
    with ih eq show ?thesis
      by (intro exI [of _ new1]) (simp add: created_ids_Cons)
  next
    assume new: "created_id resp = Some (js_number (next_id db)) \<and>
           map id_col (rows db1) = map id_col (rows db) @ [next_id db] \<and>
           next_id db1 = next_id db + 1"
    with ih have later: "\<forall>i \<in> set new1. next_id db < i" by auto
    from new ih have "next_id db < next_id db2" by simp
    with ih new eq later show ?thesis
      by (intro exI [of _ "next_id db # new1"]) (auto simp add: created_ids_Cons)
  qed
qed

lemma next_id_positive: "0 < next_id db"
proof -
  have "0 \<le> max_id rs" for rs
    unfolding max_id_ids by (induction rs) auto
  then have "0 \<le> max (seq db) (max_id (rows db))"
    by (simp add: le_max_iff_disj)
  then show ?thesis by (simp add: next_id_def)
qed

lemma length_filter_ids:
  "length (filter (\<lambda>r. id_col r = i) rs) = length (filter (\<lambda>k. k = i) (map id_col rs))"
  by (induction rs) simp_all

lemma once_in_distinct:
  "distinct xs \<Longrightarrow> i \<in> set xs \<Longrightarrow> length (filter (\<lambda>k. k = i) xs) = 1"
  by (induction xs) (auto simp add: filter_empty_conv)

lemmas demo_run_defs =
  demo_requests_def app_def guarded_cases credentials_match_def users_def
  submit_handler_cases status_handler_cases demo_request_def demo_env_def demo_db_def
  demo_row_def next_id_def max_id_def max_rowid_def issued_def field_def id_matches_def
  number_of_text_def whole_def decimal_literal_def js_number_small

lemma demo_created: "created_ids (fst (serve decimal_literal demo_db demo_requests)) = [4, 5]"
  by (simp add: demo_run_defs created_ids_def created_id_def reply_def List.map_filter_simps)

lemma demo_next_id: "next_id (snd (serve decimal_literal demo_db demo_requests)) = 6"
  by (simp add: demo_run_defs)









lemma status_statement:
  "field (body req) ''isDone'' \<noteq> JUndefined \<or> field (body req) ''isPrinted'' \<noteq> JUndefined \<Longrightarrow>
   journal (fst (snd (status_handler lit e ident req db))) =
     journal db @ [Update (status_updates e (body req)) (JStr ident)]"
  by (auto simp add: status_handler_cases issued_def split: option.split)

lemma status_updates_members:
  "field b ''isDone'' \<noteq> JUndefined \<Longrightarrow>
     (IsDone, field b ''isDone'') \<in> set (status_updates e b) \<and>
     (DoneAt, if truthy (field b ''isDone'') then JStr (now_done e) else JNull)
       \<in> set (status_updates e b)"
  "field b ''isPrinted'' \<noteq> JUndefined \<Longrightarrow>
     (IsPrinted, field b ''isPrinted'') \<in> set (status_updates e b) \<and>
     (PrintedAt, if truthy (field b ''isPrinted'') then JStr (now_printed e) else JNull)
       \<in> set (status_updates e b)"
  by (simp_all add: status_updates_def Let_def)



lemma demo_first_row: "id_col (rows demo_db ! 0) = 1" "0 < length (rows demo_db)"
  by (simp_all add: demo_db_def demo_row_def)


lemma updated_row_fields:
  "field b ''isDone'' \<noteq> JUndefined \<Longrightarrow>
     isDone (updated_row lit e b r) = numeric_affinity lit (bind (field b ''isDone'')) \<and>
     doneAt (updated_row lit e b r) =
       (if truthy (field b ''isDone'') then numeric_affinity lit (SText (now_done e)) else SNull)"
  "field b ''isPrinted'' \<noteq> JUndefined \<Longrightarrow>
     isPrinted (updated_row lit e b r) = numeric_affinity lit (bind (field b ''isPrinted'')) \<and>
     printedAt (updated_row lit e b r) =
       (if truthy (field b ''isPrinted'') then numeric_affinity lit (SText (now_printed e))
        else SNull)"
  by (simp_all add: updated_row_def)

lemma status_effect_on_hit:
  assumes "status_handler lit e ident req db = (resp, db', console)"
    and "field (body req) ''isDone'' \<noteq> JUndefined \<or> field (body req) ''isPrinted'' \<noteq> JUndefined"
    and "fault e = None" and "i < length (rows db)"
    and "id_matches lit (JStr ident) (id_col (rows db ! i))"
  shows "if field (body req) ''isDone'' = JNull \<or> field (body req) ''isPrinted'' = JNull
         then status resp = 500 \<and> rows db' = rows db
         else status resp = 200 \<and> length (rows db') = length (rows db) \<and>
              rows db' ! i = updated_row lit e (body req) (rows db ! i)"
proof -
  from assms(4,5) have "list_ex (\<lambda>r. id_matches lit (JStr ident) (id_col r)) (rows db)"
    by (auto simp add: list_ex_iff)
  with assms show ?thesis
    by (auto simp add: status_handler_cases issued_def reply_def)
qed

lemma nonboolean_done:
  assumes run: "status_handler lit e ident req db = (resp, db', console)"
    and d: "d = field (body req) ''isDone''" and p: "p = field (body req) ''isPrinted''"
    and odd: "\<not> optional_bool d"
  shows "(\<exists>sets. journal db' = journal db @ [Update sets (JStr ident)] \<and>
                    (IsDone, d) \<in> set sets \<and>
                    (DoneAt, if truthy d then JStr (now_done e) else JNull) \<in> set sets) \<and>
            (fault e = None \<and> i < length (rows db) \<and>
             id_matches lit (JStr ident) (id_col (rows db ! i)) \<longrightarrow>
               (if d = JNull \<or> p = JNull
                then status resp = 500 \<and> rows db' = rows db
                else status resp = 200 \<and>
                     isDone (rows db' ! i) = numeric_affinity lit (bind d) \<and>
                     isDone (rows db' ! i) \<noteq> SNull \<and>
                     doneAt (rows db' ! i) =
                       (if truthy d then numeric_affinity lit (SText (now_done e)) else SNull) \<and>
                     (d = JStr ''false'' \<and> lit ''false'' = None \<longrightarrow>
                        isDone (rows db' ! i) = SText ''false'' \<and>
                        doneAt (rows db' ! i) \<noteq> SNull)))"
proof -
  from odd have present: "d \<noteq> JUndefined" by (cases d) simp_all
  then have some: "field (body req) ''isDone'' \<noteq> JUndefined \<or>
      field (body req) ''isPrinted'' \<noteq> JUndefined"
    by (simp add: d p)
  from status_statement [OF some, of lit e ident db] run
  have j: "journal db' = journal db @ [Update (status_updates e (body req)) (JStr ident)]"
    by simp
  from present status_updates_members(1) [of "body req" e]
  have stmt: "(\<exists>sets. journal db' = journal db @ [Update sets (JStr ident)] \<and>
                    (IsDone, d) \<in> set sets \<and>
                    (DoneAt, if truthy d then JStr (now_done e) else JNull) \<in> set sets)"
    unfolding d p by (intro exI [of _ "status_updates e (body req)"]) (simp add: j)
  have effect: "(if d = JNull \<or> p = JNull
                then status resp = 500 \<and> rows db' = rows db
                else status resp = 200 \<and>
                     isDone (rows db' ! i) = numeric_affinity lit (bind d) \<and>
                     isDone (rows db' ! i) \<noteq> SNull \<and>
                     doneAt (rows db' ! i) =
                       (if truthy d then numeric_affinity lit (SText (now_done e)) else SNull) \<and>
                     (d = JStr ''false'' \<and> lit ''false'' = None \<longrightarrow>
                        isDone (rows db' ! i) = SText ''false'' \<and>
                        doneAt (rows db' ! i) \<noteq> SNull))"
    if hit: "fault e = None \<and> i < length (rows db) \<and>
             id_matches lit (JStr ident) (id_col (rows db ! i))"
  proof (cases "d = JNull \<or> p = JNull")
    case True
    with status_effect_on_hit [OF run some, of i] hit show ?thesis
      by (simp add: d p)
  next
    case False
    with status_effect_on_hit [OF run some, of i] hit
    have ok: "status resp = 200" and row: "rows db' ! i = updated_row lit e (body req) (rows db ! i)"
      by (simp_all add: d p)
    from False present have "numeric_affinity lit (bind d) \<noteq> SNull"
      by (simp add: bind_null_iff)
    with False ok present updated_row_fields(1) [of "body req" lit e "rows db ! i"]
    show ?thesis
      unfolding row d p by (auto split: option.splits)
  qed
  from stmt effect show ?thesis by blast
qed

lemma nonboolean_printed:
  assumes run: "status_handler lit e ident req db = (resp, db', console)"
    and d: "d = field (body req) ''isDone''" and p: "p = field (body req) ''isPrinted''"
    and odd: "\<not> optional_bool p"
  shows "(\<exists>sets. journal db' = journal db @ [Update sets (JStr ident)] \<and>
                    (IsPrinted, p) \<in> set sets \<and>
                    (PrintedAt, if truthy p then JStr (now_printed e) else JNull) \<in> set sets) \<and>
            (fault e = None \<and> i < length (rows db) \<and>
             id_matches lit (JStr ident) (id_col (rows db ! i)) \<longrightarrow>
               (if d = JNull \<or> p = JNull
                then status resp = 500 \<and> rows db' = rows db
                else status resp = 200 \<and>
                     isPrinted (rows db' ! i) = numeric_affinity lit (bind p) \<and>
                     isPrinted (rows db' ! i) \<noteq> SNull \<and>
                     printedAt (rows db' ! i) =
                       (if truthy p then numeric_affinity lit (SText (now_printed e)) else SNull) \<and>
                     (p = JStr ''false'' \<and> lit ''false'' = None \<longrightarrow>
                        isPrinted (rows db' ! i) = SText ''false'' \<and>
                        printedAt (rows db' ! i) \<noteq> SNull)))"
proof -
  from odd have present: "p \<noteq> JUndefined" by (cases p) simp_all
  then have some: "field (body req) ''isDone'' \<noteq> JUndefined \<or>
      field (body req) ''isPrinted'' \<noteq> JUndefined"
    by (simp add: d p)
  from status_statement [OF some, of lit e ident db] run
  have j: "journal db' = journal db @ [Update (status_updates e (body req)) (JStr ident)]"
    by simp
  from present status_updates_members(2) [of "body req" e]
  have stmt: "(\<exists>sets. journal db' = journal db @ [Update sets (JStr ident)] \<and>
                    (IsPrinted, p) \<in> set sets \<and>
                    (PrintedAt, if truthy p then JStr (now_printed e) else JNull) \<in> set sets)"
    unfolding d p by (intro exI [of _ "status_updates e (body req)"]) (simp add: j)
  have effect: "(if d = JNull \<or> p = JNull
                then status resp = 500 \<and> rows db' = rows db
                else status resp = 200 \<and>
                     isPrinted (rows db' ! i) = numeric_affinity lit (bind p) \<and>
                     isPrinted (rows db' ! i) \<noteq> SNull \<and>
                     printedAt (rows db' ! i) =
                       (if truthy p then numeric_affinity lit (SText (now_printed e)) else SNull) \<and>
                     (p = JStr ''false'' \<and> lit ''false'' = None \<longrightarrow>
                        isPrinted (rows db' ! i) = SText ''false'' \<and>
                        printedAt (rows db' ! i) \<noteq> SNull))"
    if hit: "fault e = None \<and> i < length (rows db) \<and>
             id_matches lit (JStr ident) (id_col (rows db ! i))"
  proof (cases "d = JNull \<or> p = JNull")
    case True
    with status_effect_on_hit [OF run some, of i] hit show ?thesis
      by (simp add: d p)
  next
    case False
    with status_effect_on_hit [OF run some, of i] hit
    have ok: "status resp = 200" and row: "rows db' ! i = updated_row lit e (body req) (rows db ! i)"
      by (simp_all add: d p)
    from False present have "numeric_affinity lit (bind p) \<noteq> SNull"
      by (simp add: bind_null_iff)
    with False ok present updated_row_fields(2) [of "body req" lit e "rows db ! i"]
    show ?thesis
      unfolding row d p by (auto split: option.splits)
  qed
  from stmt effect show ?thesis by blast
qed

lemma demo_false_request:
  "field (body (demo_request (POST_api_submissions_status ''1'') None [(''isDone'', JStr ''false'')]))
     ''isDone'' = JStr ''false''"
  "field (body (demo_request (POST_api_submissions_status ''1'') None [(''isDone'', JStr ''false'')]))
     ''isPrinted'' = JUndefined"
  "fault demo_env = None"
  "now_done demo_env = ''2024-05-02T08:30:00.000Z''"
  "id_matches decimal_literal (JStr ''1'') (id_col (rows demo_db ! 0))"
  "decimal_literal ''false'' = None"
  "numeric_affinity decimal_literal (SText ''2024-05-02T08:30:00.000Z'') =
     SText ''2024-05-02T08:30:00.000Z''"
  by (simp_all add: demo_defs)


lemma demo_printed_request:
  "field (body (demo_request (POST_api_submissions_status ''2'') None [(''isPrinted'', JArr [])]))
     ''isPrinted'' = JArr []"
  "field (body (demo_request (POST_api_submissions_status ''2'') None [(''isPrinted'', JArr [])]))
     ''isDone'' = JUndefined"
  "now_printed demo_env = ''2024-05-02T08:30:00.001Z''"
  "id_matches decimal_literal (JStr ''2'') (id_col (rows demo_db ! 1))"
  "decimal_literal ''[object Object]'' = None"
  "1 < length (rows demo_db)"
  "numeric_affinity decimal_literal (SText ''2024-05-02T08:30:00.001Z'') =
     SText ''2024-05-02T08:30:00.001Z''"
  by (simp_all add: demo_defs)

subsection \<open>Status updates without fields\<close>

text \<open>
  C3. A status request whose body has neither \<open>isDone\<close> nor \<open>isPrinted\<close> is answered
  with 400 and the message "No status fields provided to update."; the database comes
  back as it was, journal included, so the engine was handed no statement and no row
  changed. This holds whatever the engine would have done with a statement.
\<close>

theorem status_without_fields_rejected:
  assumes "field (body req) ''isDone'' = JUndefined"
    and "field (body req) ''isPrinted'' = JUndefined"
  shows "status_handler lit e ident req db =
           (reply 400 (Json_error ''No status fields provided to update.''), db, [])"
  using assms by (simp add: status_handler_def status_updates_Nil)

theorem status_without_fields_rejected_witness:
  "(let req = demo_request (POST_api_submissions_status ''1'') None [(''note'', JBool True)]
    in field (body req) ''isDone'' = JUndefined \<and> field (body req) ''isPrinted'' = JUndefined \<and>
       status_handler decimal_literal demo_env ''1'' req demo_db =
         (reply 400 (Json_error ''No status fields provided to update.''), demo_db, []))"
proof -
  define req where
    "req = demo_request (POST_api_submissions_status ''1'') None [(''note'', JBool True)]"
  have h1: "field (body req) ''isDone'' = JUndefined"
    by (simp add: req_def demo_request_def field_def)
  have h2: "field (body req) ''isPrinted'' = JUndefined"
    by (simp add: req_def demo_request_def field_def)
  from status_without_fields_rejected [OF h1 h2, of decimal_literal demo_env "''1''" demo_db] h1 h2
  show ?thesis
    unfolding req_def [symmetric] Let_def by simp
qed

subsection \<open>Status updates on an unknown id\<close>

text \<open>
  C4. A status request with at least one of the two fields present, whose path id selects
  no row of the table, leaves every row as it was; the answer is 404 "Submission not
  found." whenever the engine runs the statement, and the 500 of the handler's error
  branch when the engine itself fails.
\<close>

theorem status_unknown_id_not_found:
  assumes "field (body req) ''isDone'' \<noteq> JUndefined \<or> field (body req) ''isPrinted'' \<noteq> JUndefined"
    and "\<forall>r \<in> set (rows db). \<not> id_matches lit (JStr ident) (id_col r)"
    and "status_handler lit e ident req db = (resp, db', console)"
  shows "rows db' = rows db \<and>
         resp = (case fault e of
                   None \<Rightarrow> reply 404 (Json_error ''Submission not found.'')
                 | Some msg \<Rightarrow> reply 500 (Json_error ''Failed to update status.''))"
proof -
  from assms(2) have "\<not> list_ex (\<lambda>r. id_matches lit (JStr ident) (id_col r)) (rows db)"
    by (simp add: list_ex_iff)
  with assms(1,3) show ?thesis
    by (auto simp add: status_handler_cases issued_def split: option.splits)
qed

theorem status_unknown_id_not_found_witness:
  "(let req = demo_request (POST_api_submissions_status ''9'') None [(''isDone'', JBool True)]
    in field (body req) ''isDone'' \<noteq> JUndefined \<and>
       list_all (\<lambda>r. \<not> id_matches decimal_literal (JStr ''9'') (id_col r)) (rows demo_db) \<and>
       rows (fst (snd (status_handler decimal_literal demo_env ''9'' req demo_db))) = rows demo_db \<and>
       fst (status_handler decimal_literal demo_env ''9'' req demo_db) =
         reply 404 (Json_error ''Submission not found.''))"
proof -
  define req where "req = demo_request (POST_api_submissions_status ''9'') None [(''isDone'', JBool True)]"
  have h1: "field (body req) ''isDone'' \<noteq> JUndefined \<or> field (body req) ''isPrinted'' \<noteq> JUndefined"
    by (simp add: req_def demo_defs)
  have h2: "\<forall>r \<in> set (rows demo_db). \<not> id_matches decimal_literal (JStr ''9'') (id_col r)"
    by (simp add: demo_defs)
  obtain resp db' console where
    run: "status_handler decimal_literal demo_env ''9'' req demo_db = (resp, db', console)"
    by (cases "status_handler decimal_literal demo_env ''9'' req demo_db")
  from status_unknown_id_not_found [OF h1 h2 run] h1 h2 run show ?thesis
    unfolding req_def [symmetric] Let_def
    by (simp add: demo_env_def list_all_iff field_def req_def demo_request_def)
qed

subsection \<open>The submit handler stores customerName as shopName\<close>

text \<open>
  C2. When the engine accepts the insert, the create request is answered with 201 and
  the table gains one row whose \<open>shopName\<close> column holds the value of the body's
  \<open>customerName\<close>: the value the driver binds for it, kept by the TEXT column (a number
  is kept as the text the engine prints for it). A string is stored as that string, an
  absent or null \<open>customerName\<close> as NULL. A body field named \<open>shopName\<close> has no effect:
  setting it to any value, or removing it, gives the same response, database and console
  output.
\<close>

theorem submit_stores_customerName_as_shopName:
  assumes "fault e = None" and "next_id db \<le> max_rowid"
    and "submit_handler lit e req db = (resp, db', console)"
  shows "status resp = 201 \<and>
         (\<exists>r. rows db' = rows db @ [r] \<and>
              shopName r = text_affinity (real_text e) (bind (field (body req) ''customerName'')) \<and>
              (\<forall>s. field (body req) ''customerName'' = JStr s \<longrightarrow> shopName r = SText s) \<and>
              (field (body req) ''customerName'' = JUndefined \<or>
               field (body req) ''customerName'' = JNull \<longrightarrow> shopName r = SNull)) \<and>
         submit_handler lit e (req\<lparr>body := (body req)(''shopName'' := x)\<rparr>) db = (resp, db', console)"
proof -
  have "submit_params ((body req)(''shopName'' := x)) = submit_params (body req)"
    by (simp add: submit_params_def field_def)
  then have same: "submit_handler lit e (req\<lparr>body := (body req)(''shopName'' := x)\<rparr>) db =
      submit_handler lit e req db"
    by (simp add: submit_handler_def)
  have shop: "shopName (inserted_row lit rt ts i (submit_params b)) =
      text_affinity rt (bind (field b ''customerName''))" for rt ts i b
    by (simp add: inserted_row_def submit_params_def param_def)
  from assms show ?thesis
    unfolding same
    by (auto simp add: submit_handler_cases reply_def shop)
qed

theorem submit_stores_customerName_as_shopName_witness:
  "(let req = demo_request POST_api_submit None
                [(''customerName'', JStr ''Acme Glass''), (''shopName'', JStr ''Other'')];
        out = submit_handler decimal_literal demo_env req demo_db
    in fault demo_env = None \<and> next_id demo_db \<le> max_rowid \<and>
       status (fst out) = 201 \<and>
       map shopName (rows (fst (snd out))) =
         map shopName (rows demo_db) @ [SText ''Acme Glass''] \<and>
       submit_handler decimal_literal demo_env (req\<lparr>body := (body req)(''shopName'' := None)\<rparr>) demo_db = out)"
proof -
  define req where "req = demo_request POST_api_submit None
                [(''customerName'', JStr ''Acme Glass''), (''shopName'', JStr ''Other'')]"
  have h1: "fault demo_env = None" by (simp add: demo_env_def)
  have h2: "next_id demo_db \<le> max_rowid"
    by (simp add: next_id_def max_id_def max_rowid_def demo_defs)
  have cn: "field (body req) ''customerName'' = JStr ''Acme Glass''"
    by (simp add: req_def demo_defs)
  obtain resp db' console where
    run: "submit_handler decimal_literal demo_env req demo_db = (resp, db', console)"
    by (cases "submit_handler decimal_literal demo_env req demo_db")
  from submit_stores_customerName_as_shopName [OF h1 h2 run, of None] h1 h2 run cn show ?thesis
    unfolding req_def [symmetric] Let_def by auto
qed

subsection \<open>Which routes are behind the authenticator\<close>

text \<open>
  C7. The list route, the status route and the dashboard route run their handler exactly
  when the supplied credentials are a pair of the configured mapping; otherwise the
  answer is the 401 challenge with its \<open>WWW-Authenticate: Basic\<close> header, the database
  is untouched (no statement reaches the engine) and nothing is logged. The submit route
  runs its handler for every request, and its outcome does not depend on the credentials.
\<close>

theorem gate_on_protected_routes_only:
  "(route req = GET_api_submissions \<and> credentials_match req \<longrightarrow>
      app lit e req db = list_handler e req db) \<and>
   (route req = POST_api_submissions_status ident \<and> credentials_match req \<longrightarrow>
      app lit e req db = status_handler lit e ident req db) \<and>
   (route req = GET_root \<and> credentials_match req \<longrightarrow>
      app lit e req db = dashboard_handler req db) \<and>
   (route req \<noteq> POST_api_submit \<and> \<not> credentials_match req \<longrightarrow>
      app lit e req db = (challenge req, db, []) \<and>
      status (challenge req) = 401 \<and> www_authenticate (challenge req) = Some ''Basic'') \<and>
   (route req = POST_api_submit \<longrightarrow>
      app lit e req db = submit_handler lit e req db \<and>
      app lit e (req\<lparr>credentials := c\<rparr>) db = app lit e req db)"
  by (cases "route req")
     (simp_all add: app_def guarded_cases challenge_def submit_handler_def)

theorem gate_on_protected_routes_only_witness:
  "(let good = Some (''admin'', ''password''); bad = Some (''admin'', ''letmein'');
        listing = demo_request GET_api_submissions good [];
        update = demo_request (POST_api_submissions_status ''1'') good [(''isDone'', JBool True)];
        page = demo_request GET_root good [];
        refused = demo_request GET_root bad [];
        anon = demo_request POST_api_submit None [(''customerName'', JStr ''Acme Glass'')]
    in credentials_match listing \<and> credentials_match update \<and> credentials_match page \<and>
       \<not> credentials_match refused \<and>
       app decimal_literal demo_env listing demo_db = list_handler demo_env listing demo_db \<and>
       app decimal_literal demo_env update demo_db =
         status_handler decimal_literal demo_env ''1'' update demo_db \<and>
       app decimal_literal demo_env page demo_db = dashboard_handler page demo_db \<and>
       app decimal_literal demo_env refused demo_db = (challenge refused, demo_db, []) \<and>
       app decimal_literal demo_env anon demo_db =
         submit_handler decimal_literal demo_env anon demo_db \<and>
       app decimal_literal demo_env (anon\<lparr>credentials := bad\<rparr>) demo_db =
         app decimal_literal demo_env anon demo_db)"
proof -
  define good where "good = Some (''admin'', ''password'')"
  define bad where "bad = Some (''admin'', ''letmein'')"
  define listing where "listing = demo_request GET_api_submissions good []"
  define update where
    "update = demo_request (POST_api_submissions_status ''1'') good [(''isDone'', JBool True)]"
  define page where "page = demo_request GET_root good []"
  define refused where "refused = demo_request GET_root bad []"
  define anon where
    "anon = demo_request POST_api_submit None [(''customerName'', JStr ''Acme Glass'')]"
  have l: "route listing = GET_api_submissions \<and> credentials_match listing"
    by (simp add: listing_def good_def demo_request_def credentials_match_def users_def)
  have u: "route update = POST_api_submissions_status ''1'' \<and> credentials_match update"
    by (simp add: update_def good_def demo_request_def credentials_match_def users_def)
  have p: "route page = GET_root \<and> credentials_match page"
    by (simp add: page_def good_def demo_request_def credentials_match_def users_def)
  have r: "route refused \<noteq> POST_api_submit \<and> \<not> credentials_match refused"
    by (simp add: refused_def bad_def demo_request_def credentials_match_def users_def)
  have a: "route anon = POST_api_submit"
    by (simp add: anon_def demo_request_def)
  from gate_on_protected_routes_only
         [where req = listing and lit = decimal_literal and e = demo_env and db = demo_db]
       gate_on_protected_routes_only
         [where req = update and ident = "''1''" and lit = decimal_literal and e = demo_env
            and db = demo_db]
       gate_on_protected_routes_only
         [where req = page and lit = decimal_literal and e = demo_env and db = demo_db]
       gate_on_protected_routes_only
         [where req = refused and lit = decimal_literal and e = demo_env and db = demo_db]
       gate_on_protected_routes_only
         [where req = anon and lit = decimal_literal and e = demo_env and db = demo_db
            and c = bad]
       l u p r a
  show ?thesis
    unfolding Let_def good_def [symmetric] bad_def [symmetric] listing_def [symmetric]
      update_def [symmetric] page_def [symmetric] refused_def [symmetric] anon_def [symmetric]
    by simp
qed

subsection \<open>What an error response carries\<close>

text \<open>
  C8, as the specification states it, fails on the authenticator's refusal: its body is
  built from the credentials the request supplied, so two requests to the list route that
  differ only in the rejected password are answered with different bodies.
\<close>

theorem challenge_body_repeats_credentials:
  "fst (app decimal_literal demo_env
          (demo_request GET_api_submissions (Some (''admin'', ''hunter2'')) []) demo_db) =
     \<lparr> status = 401, www_authenticate = Some ''Basic'',
       payload = Text ''Credentials admin:hunter2 rejected'' \<rparr> \<and>
   fst (app decimal_literal demo_env
          (demo_request GET_api_submissions (Some (''admin'', ''letmein'')) []) demo_db) =
     \<lparr> status = 401, www_authenticate = Some ''Basic'',
       payload = Text ''Credentials admin:letmein rejected'' \<rparr> \<and>
   payload (fst (app decimal_literal demo_env
          (demo_request GET_api_submissions (Some (''admin'', ''hunter2'')) []) demo_db)) \<noteq>
   payload (fst (app decimal_literal demo_env
          (demo_request GET_api_submissions (Some (''admin'', ''letmein'')) []) demo_db))"
  by (simp add: app_def guarded_cases credentials_match_def users_def challenge_def
      unauthorizedResponse_def demo_request_def)

text \<open>
  C8, amended. For a request that reaches one of the four routes of \<open>index.js\<close> with a
  body \<open>express.json()\<close> has parsed (the requests \<open>app\<close> answers), every response with a
  status of 400 or above is either the 401 challenge, whose body is
  "No credentials provided" when the request carries no credentials and otherwise
  "Credentials user:password rejected" with the supplied pair, or one of five fixed
  messages of the route handlers. The response of these routes never depends on the text
  of the engine's failure: two failures with different messages are answered alike. The
  pages Express sends by itself, for a body that does not parse and for a path no route
  matches, are outside this statement.
\<close>

theorem error_bodies_fixed_or_echo:
  assumes "app lit e req db = (resp, db', console)" and "400 \<le> status resp"
  shows "(status resp = 401 \<and> www_authenticate resp = Some ''Basic'' \<and>
            payload resp =
              Text (case credentials req of
                      None \<Rightarrow> ''No credentials provided''
                    | Some (user, password) \<Rightarrow>
                        ''Credentials '' @ user @ '':'' @ password @ '' rejected'')
          \<or> status resp \<noteq> 401 \<and> payload resp \<in> fixed_messages) \<and>
         fst (app lit (e\<lparr>fault := Some m\<rparr>) req db) = fst (app lit (e\<lparr>fault := Some m'\<rparr>) req db)"
proof -
  have indep: "fst (app lit (e\<lparr>fault := Some m\<rparr>) req db) = fst (app lit (e\<lparr>fault := Some m'\<rparr>) req db)"
    by (simp add: app_response submit_handler_response list_handler_response
        status_handler_response split: route.split)
  have resp: "resp = fst (app lit e req db)" using assms(1) by simp
  have echo: "payload (challenge req) =
              Text (case credentials req of
                      None \<Rightarrow> ''No credentials provided''
                    | Some (user, password) \<Rightarrow>
                        ''Credentials '' @ user @ '':'' @ password @ '' rejected'')"
    by (simp add: challenge_def unauthorizedResponse_def split: option.split)
  have ch: "status (challenge req) = 401" "www_authenticate (challenge req) = Some ''Basic''"
    by (simp_all add: challenge_def)
  have st: "status (reply c p) = c" "payload (reply c p) = p" for c p
    by (simp_all add: reply_def)
  have body: "status resp = 401 \<and> www_authenticate resp = Some ''Basic'' \<and>
            payload resp =
              Text (case credentials req of
                      None \<Rightarrow> ''No credentials provided''
                    | Some (user, password) \<Rightarrow>
                        ''Credentials '' @ user @ '':'' @ password @ '' rejected'')
          \<or> status resp \<noteq> 401 \<and> payload resp \<in> fixed_messages"
  proof (cases "route req \<noteq> POST_api_submit \<and> \<not> credentials_match req")
    case True
    then have "resp = challenge req" by (simp add: resp app_response)
    with echo ch show ?thesis by simp
  next
    case False
    with assms(2) show ?thesis
      unfolding resp
      by (cases "route req")
         (auto simp add: app_response submit_handler_response list_handler_response
            status_handler_response st fixed_messages_mem split: option.splits if_splits)
  qed
  from body indep show ?thesis by blast
qed

theorem error_bodies_fixed_or_echo_witness:
  "status (fst (app decimal_literal (demo_env\<lparr>fault := Some ''SQLITE_IOERR: disk I/O error''\<rparr>)
             (demo_request POST_api_submit None []) demo_db)) = 500 \<and>
   payload (fst (app decimal_literal (demo_env\<lparr>fault := Some ''SQLITE_IOERR: disk I/O error''\<rparr>)
             (demo_request POST_api_submit None []) demo_db)) \<in> fixed_messages"
proof -
  obtain resp db' console where
    run: "app decimal_literal (demo_env\<lparr>fault := Some ''SQLITE_IOERR: disk I/O error''\<rparr>)
             (demo_request POST_api_submit None []) demo_db = (resp, db', console)"
    by (cases "app decimal_literal (demo_env\<lparr>fault := Some ''SQLITE_IOERR: disk I/O error''\<rparr>)
             (demo_request POST_api_submit None []) demo_db")
  then have st: "status resp = 500"
    by (auto simp add: app_def demo_request_def submit_handler_cases reply_def)
  then have "400 \<le> status resp" by simp
  from error_bodies_fixed_or_echo [OF run this] st run show ?thesis by simp
qed

subsection \<open>The order of the list\<close>

text \<open>
  C6. When the engine runs the query and the rows of the table have pairwise distinct
  \<open>submittedAt\<close> values, the list route answers 200 with rows in strictly descending
  order of \<open>submittedAt\<close> (the engine's order: text compares bytewise, so timestamps of
  one format compare by time), whatever the \<open>showAll\<close> flag is.
\<close>

theorem list_sorted_by_submittedAt_desc:
  assumes "fault e = None" and "distinct (map submittedAt (rows db))"
    and "list_handler e req db = (resp, db', console)"
  shows "\<exists>rs. resp = reply 200 (Json_rows rs) \<and>
              sorted_wrt (\<lambda>a b. sql_rank (submittedAt b) < sql_rank (submittedAt a)) rs"
proof -
  let ?shown = "if field (query req) ''showAll'' \<noteq> JStr ''true''
                then filter (\<lambda>r. isDone r = SInt 0) (rows db) else rows db"
  from assms(2) have "distinct (map submittedAt ?shown)"
    by (simp add: distinct_map_filter)
  then have "sorted_wrt (\<lambda>a b. sql_rank (submittedAt b) < sql_rank (submittedAt a))
               (order_by_desc submittedAt ?shown)"
    by (rule order_by_desc_strict)
  moreover from assms(1,3) have "resp = reply 200 (Json_rows (order_by_desc submittedAt ?shown))"
    by (simp add: list_handler_cases)
  ultimately show ?thesis by blast
qed

theorem list_sorted_by_submittedAt_desc_witness:
  "fault demo_env = None \<and> distinct (map submittedAt (rows demo_db)) \<and>
   (\<exists>rs. fst (list_handler demo_env (demo_request GET_api_submissions None []) demo_db) =
            reply 200 (Json_rows rs) \<and>
         sorted_wrt (\<lambda>a b. sql_rank (submittedAt b) < sql_rank (submittedAt a)) rs)"
proof -
  have h1: "fault demo_env = None" by (simp add: demo_env_def)
  have h2: "distinct (map submittedAt (rows demo_db))"
    by (simp add: demo_defs)
  obtain resp db' console where
    run: "list_handler demo_env (demo_request GET_api_submissions None []) demo_db =
            (resp, db', console)"
    by (cases "list_handler demo_env (demo_request GET_api_submissions None []) demo_db")
  from list_sorted_by_submittedAt_desc [OF h1 h2 run] h1 h2 run show ?thesis by simp
qed

subsection \<open>What the list shows\<close>

text \<open>
  C5. When the engine runs the query, the list route answers 200 with rows that are,
  as a multiset, all the rows of the table when the query flag \<open>showAll\<close> is exactly the
  string \<open>true\<close>, and otherwise exactly the rows whose \<open>isDone\<close> is 0 (never a row whose
  \<open>isDone\<close> is 1, in particular). Listing changes no row, and no later request removes
  a row: the ids in the table after any further requests include those in it now, so a
  later full list covers every earlier one.
\<close>

theorem list_respects_showAll:
  assumes "fault e = None" and "list_handler e req db = (resp, db', console)"
  shows "(\<exists>rs. resp = reply 200 (Json_rows rs) \<and>
            (field (query req) ''showAll'' = JStr ''true'' \<longrightarrow> mset rs = mset (rows db)) \<and>
            (field (query req) ''showAll'' \<noteq> JStr ''true'' \<longrightarrow>
               mset rs = mset (filter (\<lambda>r. isDone r = SInt 0) (rows db)) \<and>
               (\<forall>r \<in> set rs. isDone r \<noteq> SInt 1))) \<and>
         rows db' = rows db \<and>
         set (map id_col (rows db)) \<subseteq> set (map id_col (rows (snd (serve lit db qs))))"
proof -
  have perm: "mset (order_by_desc submittedAt xs) = mset xs" for xs :: "submission list"
    by (simp add: order_by_desc_def)
  have mem: "set (order_by_desc submittedAt xs) = set xs" for xs :: "submission list"
    by (simp add: order_by_desc_def)
  obtain resps db2 where run: "serve lit db qs = (resps, db2)"
    by (cases "serve lit db qs")
  from serve_ids_grow [OF run] obtain new where
    "map id_col (rows db2) = map id_col (rows db) @ new" ..
  then have "set (map id_col (rows db2)) = set (map id_col (rows db)) \<union> set new"
    by (simp only: set_append)
  with run
  have later: "set (map id_col (rows db)) \<subseteq> set (map id_col (rows (snd (serve lit db qs))))"
    by simp
  from assms have
    shown: "resp = reply 200 (Json_rows (order_by_desc submittedAt
        (if field (query req) ''showAll'' \<noteq> JStr ''true''
         then filter (\<lambda>r. isDone r = SInt 0) (rows db) else rows db)))"
    and same: "rows db' = rows db"
    by (auto simp add: list_handler_cases)
  have "\<exists>rs. resp = reply 200 (Json_rows rs) \<and>
            (field (query req) ''showAll'' = JStr ''true'' \<longrightarrow> mset rs = mset (rows db)) \<and>
            (field (query req) ''showAll'' \<noteq> JStr ''true'' \<longrightarrow>
               mset rs = mset (filter (\<lambda>r. isDone r = SInt 0) (rows db)) \<and>
               (\<forall>r \<in> set rs. isDone r \<noteq> SInt 1))"
    unfolding shown by (rule exI, rule conjI, rule refl) (simp add: perm mem)
  with same later show ?thesis by blast
qed

theorem list_respects_showAll_witness:
  "fault demo_env = None \<and>
   (\<exists>rs. fst (list_handler demo_env
               ((demo_request GET_api_submissions None [])\<lparr>query := [''showAll'' \<mapsto> JStr ''true'']\<rparr>)
               demo_db) = reply 200 (Json_rows rs) \<and>
         mset rs = mset (rows demo_db)) \<and>
   (\<exists>rs. fst (list_handler demo_env
               ((demo_request GET_api_submissions None [])\<lparr>query := [''showAll'' \<mapsto> JStr ''yes'']\<rparr>)
               demo_db) = reply 200 (Json_rows rs) \<and>
         mset rs = mset (filter (\<lambda>r. isDone r = SInt 0) (rows demo_db)) \<and>
         list_all (\<lambda>r. isDone r \<noteq> SInt 1) rs)"
proof -
  define all where
    "all = (demo_request GET_api_submissions None [])\<lparr>query := [''showAll'' \<mapsto> JStr ''true'']\<rparr>"
  define some where
    "some = (demo_request GET_api_submissions None [])\<lparr>query := [''showAll'' \<mapsto> JStr ''yes'']\<rparr>"
  have h1: "fault demo_env = None" by (simp add: demo_env_def)
  have qa: "field (query all) ''showAll'' = JStr ''true''"
    by (simp add: all_def field_def)
  have qs: "field (query some) ''showAll'' \<noteq> JStr ''true''"
    by (simp add: some_def field_def)
  obtain r1 d1 c1 where run1: "list_handler demo_env all demo_db = (r1, d1, c1)"
    by (cases "list_handler demo_env all demo_db")
  obtain r2 d2 c2 where run2: "list_handler demo_env some demo_db = (r2, d2, c2)"
    by (cases "list_handler demo_env some demo_db")
  from list_respects_showAll [OF h1 run1, of decimal_literal "[]"]
       list_respects_showAll [OF h1 run2, of decimal_literal "[]"] h1 qa qs run1 run2
  show ?thesis
    unfolding all_def [symmetric] some_def [symmetric] by (auto simp add: list_all_iff)
qed

subsection \<open>The ids of created rows\<close>

text \<open>
  C9, as the specification states it, fails where ids leave the range a JavaScript number
  holds exactly. The engine's ids are 64-bit integers, but the id the create route
  returns is \<open>this.lastID\<close>, a double. In a table whose sequence stands at
  9007199254740994 the next two creates store the rows 9007199254740995 and
  9007199254740996, and both return 9007199254740996: the second id returned is not
  greater than the first, and the first is not the id of the row it created.
\<close>

theorem rounded_ids_repeat:
  "created_ids (fst (serve decimal_literal \<lparr>rows = [], seq = 9007199254740994, journal = []\<rparr>
      [(demo_env, demo_request POST_api_submit None []),
       (demo_env, demo_request POST_api_submit None [])])) =
     [9007199254740996, 9007199254740996] \<and>
   map id_col (rows (snd (serve decimal_literal \<lparr>rows = [], seq = 9007199254740994, journal = []\<rparr>
      [(demo_env, demo_request POST_api_submit None []),
       (demo_env, demo_request POST_api_submit None [])]))) =
     [9007199254740995, 9007199254740996]"
  by (simp add: app_def submit_handler_cases demo_request_def demo_env_def next_id_def max_id_def
      max_rowid_def js_number_def ulp_small ulp_large Let_def created_ids_def created_id_def
      reply_def List.map_filter_simps)

text \<open>
  C9, amended. Over any sequence of requests served one after the other that leaves the
  next id to be assigned at or below \<open>2 ^ 53\<close>, the ids returned by the successful
  creates are strictly increasing in the order they were returned, and in the table at
  the end each of them is the id of exactly one row.
\<close>

theorem created_ids_increase:
  assumes "serve lit db qs = (resps, db')" and "next_id db' \<le> 9007199254740992"
  shows "sorted_wrt (<) (created_ids resps) \<and>
         (\<forall>i \<in> set (created_ids resps). length (filter (\<lambda>r. id_col r = i) (rows db')) = 1)"
proof -
  from serve_created [OF assms(1)] obtain new where facts:
    "map id_col (rows db') = map id_col (rows db) @ new"
    "created_ids resps = map js_number new"
    "sorted_wrt (<) new"
    "\<forall>i \<in> set new. next_id db \<le> i \<and> i < next_id db'"
    by blast
  have "js_number i = i" if "i \<in> set new" for i
  proof -
    from facts(4) that next_id_positive [of db] assms(2)
    have "\<bar>i\<bar> < 9007199254740992" by auto
    then show ?thesis by (rule js_number_small)
  qed
  with facts(2) have same: "created_ids resps = new"
    by (simp add: map_idI)
  from facts(3) have dist: "distinct new" by (simp add: strict_sorted_iff)
  have "length (filter (\<lambda>r. id_col r = i) (rows db')) = 1" if i: "i \<in> set new" for i
  proof -
    from facts(4) i have "next_id db \<le> i" by simp
    then have "k \<noteq> i" if "k \<in> set (map id_col (rows db))" for k
      using id_le_max_id [OF that] by (simp add: next_id_def)
    then have "filter (\<lambda>k. k = i) (map id_col (rows db)) = []"
      by (auto simp add: filter_empty_conv)
    with facts(1) once_in_distinct [OF dist i] show ?thesis
      by (simp add: length_filter_ids)
  qed
  with facts(3) same show ?thesis by simp
qed

theorem created_ids_increase_witness:
  "next_id (snd (serve decimal_literal demo_db demo_requests)) \<le> 9007199254740992 \<and>
   created_ids (fst (serve decimal_literal demo_db demo_requests)) = [4, 5] \<and>
   sorted_wrt (<) (created_ids (fst (serve decimal_literal demo_db demo_requests))) \<and>
   list_all (\<lambda>i. length (filter (\<lambda>r. id_col r = i)
                       (rows (snd (serve decimal_literal demo_db demo_requests)))) = 1)
     (created_ids (fst (serve decimal_literal demo_db demo_requests)))"
proof -
  obtain resps db' where run: "serve decimal_literal demo_db demo_requests = (resps, db')"
    by (cases "serve decimal_literal demo_db demo_requests")
  from demo_next_id run have small: "next_id db' \<le> 9007199254740992" by simp
  from created_ids_increase [OF run small] demo_created run small show ?thesis
    by (simp add: list_all_iff)
qed

subsection \<open>The timestamp follows the last write of its boolean\<close>




subsection \<open>Status values that are not booleans\<close>

text \<open>
  C10, as the specification states it, fails in two ways. For \<open>null\<close>, which is present
  and not a boolean, the statement assigns NULL to a column declared \<open>NOT NULL\<close>: on an
  existing id the engine rejects it, the handler answers 500 and the row keeps the
  \<open>isDone\<close> it had, so the supplied value is not stored. And what is stored is not always
  the supplied value: the driver binds the array \<open>[1]\<close> as the text \<open>[object Object]\<close>,
  and the column's numeric affinity turns the string \<open>1\<close> into the integer 1.
\<close>

theorem null_rejected_and_array_not_verbatim:
  "status_handler decimal_literal demo_env ''1''
     (demo_request (POST_api_submissions_status ''1'') None [(''isDone'', JNull)]) demo_db =
     (reply 500 (Json_error ''Failed to update status.''),
      demo_db\<lparr>journal := [Update [(IsDone, JNull), (DoneAt, JNull)] (JStr ''1'')]\<rparr>,
      [''Error updating status for ID 1 SQLITE_CONSTRAINT: NOT NULL constraint failed: submissions.isDone'']) \<and>
   map id_col (rows demo_db) = [1, 2, 3] \<and>
   map isDone (rows demo_db) = [SInt 0, SInt 1, SInt 0] \<and>
   fst (status_handler decimal_literal demo_env ''1''
     (demo_request (POST_api_submissions_status ''1'') None [(''isDone'', JArr [JNum 1])])
     demo_db) = reply 200 (Json_message ''Status updated successfully.'') \<and>
   map isDone (rows (fst (snd (status_handler decimal_literal demo_env ''1''
     (demo_request (POST_api_submissions_status ''1'') None [(''isDone'', JArr [JNum 1])])
     demo_db)))) = [SText ''[object Object]'', SInt 1, SInt 0] \<and>
   map isDone (rows (fst (snd (status_handler decimal_literal demo_env ''1''
     (demo_request (POST_api_submissions_status ''1'') None [(''isDone'', JStr ''1'')])
     demo_db)))) = [SInt 1, SInt 1, SInt 0]"
  by (simp add: status_handler_cases issued_def status_updates_def not_null_message_def
      demo_defs reply_def updated_row_def)

text \<open>
  C10, amended. A status request whose \<open>isDone\<close> is present and not a boolean hands the
  engine one \<open>UPDATE\<close> that passes the supplied value itself for \<open>isDone\<close> and chooses
  \<open>doneAt\<close> by the value's truthiness: the current time when truthy, null otherwise.
  When the engine runs the statement on a row the path id selects, a \<open>null\<close> in either
  status field is rejected (500, no row changes); otherwise the answer is 200 and the row
  holds the value as the driver binds it (an array or object as the text
  \<open>[object Object]\<close>) and as the column's numeric affinity keeps it (a text the engine
  reads as a number becomes that number), which is not NULL, with the timestamp chosen by
  truthiness. For the string \<open>false\<close>, which is truthy and which the engine does not read
  as a number, \<open>isDone\<close> holds the text \<open>false\<close> while \<open>doneAt\<close> is non-null. The same
  holds for \<open>isPrinted\<close> and \<open>printedAt\<close>.
\<close>

theorem nonboolean_status_value:
  assumes "status_handler lit e ident req db = (resp, db', console)"
    and "d = field (body req) ''isDone''" and "p = field (body req) ''isPrinted''"
  shows "(\<not> optional_bool d \<longrightarrow>
            (\<exists>sets. journal db' = journal db @ [Update sets (JStr ident)] \<and>
                    (IsDone, d) \<in> set sets \<and>
                    (DoneAt, if truthy d then JStr (now_done e) else JNull) \<in> set sets) \<and>
            (fault e = None \<and> i < length (rows db) \<and>
             id_matches lit (JStr ident) (id_col (rows db ! i)) \<longrightarrow>
               (if d = JNull \<or> p = JNull
                then status resp = 500 \<and> rows db' = rows db
                else status resp = 200 \<and>
                     isDone (rows db' ! i) = numeric_affinity lit (bind d) \<and>
                     isDone (rows db' ! i) \<noteq> SNull \<and>
                     doneAt (rows db' ! i) =
                       (if truthy d then numeric_affinity lit (SText (now_done e)) else SNull) \<and>
                     (d = JStr ''false'' \<and> lit ''false'' = None \<longrightarrow>
                        isDone (rows db' ! i) = SText ''false'' \<and>
                        doneAt (rows db' ! i) \<noteq> SNull)))) \<and>
         (\<not> optional_bool p \<longrightarrow>
            (\<exists>sets. journal db' = journal db @ [Update sets (JStr ident)] \<and>
                    (IsPrinted, p) \<in> set sets \<and>
                    (PrintedAt, if truthy p then JStr (now_printed e) else JNull) \<in> set sets) \<and>
            (fault e = None \<and> i < length (rows db) \<and>
             id_matches lit (JStr ident) (id_col (rows db ! i)) \<longrightarrow>
               (if d = JNull \<or> p = JNull
                then status resp = 500 \<and> rows db' = rows db
                else status resp = 200 \<and>
                     isPrinted (rows db' ! i) = numeric_affinity lit (bind p) \<and>
                     isPrinted (rows db' ! i) \<noteq> SNull \<and>
                     printedAt (rows db' ! i) =
                       (if truthy p then numeric_affinity lit (SText (now_printed e)) else SNull) \<and>
                     (p = JStr ''false'' \<and> lit ''false'' = None \<longrightarrow>
                        isPrinted (rows db' ! i) = SText ''false'' \<and>
                        printedAt (rows db' ! i) \<noteq> SNull))))"
  using nonboolean_done [OF assms, of i] nonboolean_printed [OF assms, of i] by blast

theorem nonboolean_status_value_witness:
  "\<not> optional_bool (JStr ''false'') \<and> decimal_literal ''false'' = None \<and>
   status (fst (status_handler decimal_literal demo_env ''1''
     (demo_request (POST_api_submissions_status ''1'') None [(''isDone'', JStr ''false'')])
     demo_db)) = 200 \<and>
   isDone (rows (fst (snd (status_handler decimal_literal demo_env ''1''
     (demo_request (POST_api_submissions_status ''1'') None [(''isDone'', JStr ''false'')])
     demo_db))) ! 0) = SText ''false'' \<and>
   doneAt (rows (fst (snd (status_handler decimal_literal demo_env ''1''
     (demo_request (POST_api_submissions_status ''1'') None [(''isDone'', JStr ''false'')])
     demo_db))) ! 0) = SText ''2024-05-02T08:30:00.000Z'' \<and>
   \<not> optional_bool (JArr []) \<and>
   status (fst (status_handler decimal_literal demo_env ''2''
     (demo_request (POST_api_submissions_status ''2'') None [(''isPrinted'', JArr [])])
     demo_db)) = 200 \<and>
   isPrinted (rows (fst (snd (status_handler decimal_literal demo_env ''2''
     (demo_request (POST_api_submissions_status ''2'') None [(''isPrinted'', JArr [])])
     demo_db))) ! 1) = SText ''[object Object]'' \<and>
   printedAt (rows (fst (snd (status_handler decimal_literal demo_env ''2''
     (demo_request (POST_api_submissions_status ''2'') None [(''isPrinted'', JArr [])])
     demo_db))) ! 1) = SText ''2024-05-02T08:30:00.001Z''"
proof -
  obtain resp db' console where
    run: "status_handler decimal_literal demo_env ''1''
     (demo_request (POST_api_submissions_status ''1'') None [(''isDone'', JStr ''false'')])
     demo_db = (resp, db', console)"
    by (cases "status_handler decimal_literal demo_env ''1''
     (demo_request (POST_api_submissions_status ''1'') None [(''isDone'', JStr ''false'')])
     demo_db")
  obtain resp2 db2 console2 where
    run2: "status_handler decimal_literal demo_env ''2''
     (demo_request (POST_api_submissions_status ''2'') None [(''isPrinted'', JArr [])])
     demo_db = (resp2, db2, console2)"
    by (cases "status_handler decimal_literal demo_env ''2''
     (demo_request (POST_api_submissions_status ''2'') None [(''isPrinted'', JArr [])])
     demo_db")
  from nonboolean_status_value [OF run refl refl, of 0] demo_false_request demo_first_row
  have first: "status resp = 200 \<and> isDone (rows db' ! 0) = SText ''false'' \<and>
      doneAt (rows db' ! 0) = SText ''2024-05-02T08:30:00.000Z''"
    by simp
  from nonboolean_status_value [OF run2 refl refl, of 1] demo_printed_request demo_false_request(3)
  have second: "status resp2 = 200 \<and> isPrinted (rows db2 ! 1) = SText ''[object Object]'' \<and>
      printedAt (rows db2 ! 1) = SText ''2024-05-02T08:30:00.001Z''"
    by simp
  from first second demo_false_request(6) show ?thesis
    unfolding run run2 by simp
qed

end
